theory Spec2Isabelle
  imports Complex_Main
begin

section \<open>Errors\<close>

text \<open>
  Every exception the modelled code can raise is a value. \<open>UndefinedUnitError\<close> and
  \<open>DimensionalityError\<close> are Pint's; \<open>PintError\<close> stands for any other exception the
  unit library raises. \<open>RecursionError\<close> is what Python raises when the nesting of calls
  exceeds the interpreter's recursion limit, \<open>AttributeError\<close> what it raises when
  \<open>.units\<close> is read of a plain number.
\<close>

datatype error =
    ValueError string
  | KeyError string
  | AssertionError
  | RecursionError
  | UndefinedUnitError
  | DimensionalityError
  | PintError string
  | TypeError
  | AttributeError

section \<open>Units and quantities (units.py, static methods)\<close>

text \<open>
  The static methods of \<open>UnitStore\<close> work on Pint's units and quantities and call
  \<open>math.isclose\<close>. Pint and the \<open>math\<close> module are outside the repository, so what the
  methods use of them is a parameter of the model; \<open>'u\<close> is a unit object and \<open>'d\<close> a
  dimensionality.
  \<^item> \<open>qty_dimensionality u\<close>: \<open>u.dimensionality\<close>;
  \<^item> \<open>qty_to m u v\<close>: the magnitude of \<open>Quantity(m, u).to(Quantity(_, v))\<close>, or the
    exception raised (Pint reads only the units of the quantity it converts to);
  \<^item> \<open>qty_isclose a b\<close>: \<open>math.isclose(a, b)\<close>.
  A magnitude is a Python number. Every finite float is a rational number, so magnitudes
  have type \<open>rat\<close>; the operations on them are the parameters above and are not assumed
  to be exact.
\<close>

record ('u, 'd) quantities =
  qty_dimensionality :: "'u \<Rightarrow> 'd"
  qty_to :: "rat \<Rightarrow> 'u \<Rightarrow> 'u \<Rightarrow> error + rat"
  qty_isclose :: "rat \<Rightarrow> rat \<Rightarrow> bool"

record 'u quantity =
  magnitude :: rat
  units :: 'u

text \<open>The static methods accept a unit or a quantity (\<open>isinstance(u, Quantity)\<close>).\<close>

datatype 'u unit_arg = AUnit 'u | AQuantity "'u quantity"

text \<open>\<open>1 * unit\<close>\<close>

definition one_times :: "'u \<Rightarrow> 'u quantity" where
  "one_times u = \<lparr>magnitude = 1, units = u\<rparr>"

text \<open>\<open>q.to(other)\<close>: a quantity in the units of \<open>other\<close>.\<close>

definition quantity_to ::
  "('u, 'd) quantities \<Rightarrow> 'u quantity \<Rightarrow> 'u quantity \<Rightarrow> error + 'u quantity" where
  "quantity_to Q q other =
     (case qty_to Q (magnitude q) (units q) (units other) of
        Inl e \<Rightarrow> Inl e
      | Inr m \<Rightarrow> Inr \<lparr>magnitude = m, units = units other\<rparr>)"

text \<open>\<open>UnitStore.one_of_unit\<close>: asserts that its argument is a unit.\<close>

fun one_of_unit :: "'u unit_arg \<Rightarrow> error + 'u quantity" where
  "one_of_unit (AUnit u) = Inr (one_times u)"
| "one_of_unit (AQuantity q) = Inl AssertionError"

text \<open>\<open>q = u if isinstance(u, Quantity) else UnitStore.one_of_unit(u)\<close>\<close>

fun as_quantity :: "'u unit_arg \<Rightarrow> error + 'u quantity" where
  "as_quantity (AQuantity q) = Inr q"
| "as_quantity (AUnit u) = one_of_unit (AUnit u)"

text \<open>
  \<open>UnitStore.is_unit_equal\<close>. Python's \<open>and\<close> evaluates \<open>q1.to(q2)\<close> only when the
  dimensionalities are equal.
\<close>

definition is_unit_equal ::
  "('u, 'd) quantities \<Rightarrow> 'u unit_arg \<Rightarrow> 'u unit_arg \<Rightarrow> error + bool" where
  "is_unit_equal Q u1 u2 =
     (case as_quantity u1 of
        Inl e \<Rightarrow> Inl e
      | Inr q1 \<Rightarrow>
          (case as_quantity u2 of
             Inl e \<Rightarrow> Inl e
           | Inr q2 \<Rightarrow>
               if qty_dimensionality Q (units q1) = qty_dimensionality Q (units q2) then
                 (case quantity_to Q q1 q2 of
                    Inl e \<Rightarrow> Inl e
                  | Inr q \<Rightarrow> Inr (qty_isclose Q (magnitude q) (magnitude q1)))
               else Inr False))"

text \<open>\<open>UnitStore.convert_to\<close>\<close>

definition convert_to ::
  "('u, 'd) quantities \<Rightarrow> 'u unit_arg \<Rightarrow> 'u unit_arg \<Rightarrow> error + 'u quantity" where
  "convert_to Q a b =
     (case as_quantity a of
        Inl e \<Rightarrow> Inl e
      | Inr q1 \<Rightarrow>
          (case as_quantity b of
             Inl e \<Rightarrow> Inl e
           | Inr q2 \<Rightarrow> quantity_to Q q1 q2))"

text \<open>\<open>UnitStore.get_conversion_factor\<close>, with its three assertions in order.\<close>

fun get_conversion_factor ::
  "('u, 'd) quantities \<Rightarrow> 'u unit_arg \<Rightarrow> 'u unit_arg \<Rightarrow> error + rat" where
  "get_conversion_factor Q (AUnit from_unit) (AUnit to_unit) =
     (if qty_dimensionality Q from_unit \<noteq> qty_dimensionality Q to_unit then Inl AssertionError
      else (case quantity_to Q (one_times from_unit) (one_times to_unit) of
              Inl e \<Rightarrow> Inl e
            | Inr q \<Rightarrow> Inr (magnitude q)))"
| "get_conversion_factor Q _ _ = Inl AssertionError"

subsection \<open>Units in exact arithmetic, for concrete evaluation\<close>

text \<open>
  Units as Pint's default registry defines them: a scale and an offset relative to the
  root unit of the dimensionality (\<open>degC = kelvin; offset: 273.15\<close>). A magnitude \<open>m\<close>
  in \<open>a\<close> is \<open>m * factor a + offset a\<close> root units. Conversion and \<open>isclose\<close>
  (\<open>abs(a - b) <= max(rel_tol * max(abs(a), abs(b)), abs_tol)\<close> with the defaults
  \<open>rel_tol = 1e-09\<close>, \<open>abs_tol = 0.0\<close>) are computed here without rounding; the
  theorems evaluate them only at values far from the tolerance. No unit of the registry
  has scale 0; dividing by one would raise.
\<close>

record exact_unit =
  uname :: string
  factor :: rat
  offset :: rat
  dims :: "(string \<times> rat) list"

definition exact_to :: "rat \<Rightarrow> exact_unit \<Rightarrow> exact_unit \<Rightarrow> error + rat" where
  "exact_to m a b =
     (if dims a \<noteq> dims b then Inl DimensionalityError
      else if factor b = 0 then Inl (PintError ''ZeroDivisionError'')
      else Inr ((m * factor a + offset a - offset b) / factor b))"

definition exact_isclose :: "rat \<Rightarrow> rat \<Rightarrow> bool" where
  "exact_isclose a b \<longleftrightarrow> \<bar>a - b\<bar> \<le> max (max \<bar>a\<bar> \<bar>b\<bar> / 1000000000) 0"

definition exact_quantities :: "(exact_unit, (string \<times> rat) list) quantities" where
  "exact_quantities =
     \<lparr>qty_dimensionality = dims, qty_to = exact_to, qty_isclose = exact_isclose\<rparr>"

definition second :: exact_unit where
  "second = \<lparr>uname = ''second'', factor = 1, offset = 0, dims = [(''[time]'', 1)]\<rparr>"

definition millisecond :: exact_unit where
  "millisecond =
     \<lparr>uname = ''millisecond'', factor = 1 / 1000, offset = 0, dims = [(''[time]'', 1)]\<rparr>"

definition volt :: exact_unit where
  "volt = \<lparr>uname = ''volt'', factor = 1, offset = 0,
           dims = [(''[current]'', -1), (''[length]'', 2), (''[mass]'', 1), (''[time]'', -3)]\<rparr>"

definition kelvin :: exact_unit where
  "kelvin = \<lparr>uname = ''kelvin'', factor = 1, offset = 0, dims = [(''[temperature]'', 1)]\<rparr>"

definition celsius :: exact_unit where
  "celsius =
     \<lparr>uname = ''degC'', factor = 1, offset = 5463 / 20, dims = [(''[temperature]'', 1)]\<rparr>"

section \<open>The unit registry as UnitStore uses it\<close>

text \<open>
  \<open>UnitStore\<close> keeps a \<open>pint.UnitRegistry\<close> and calls a few of its operations. Pint is
  a library outside the repository, so the operations are parameters of the model: \<open>'r\<close>
  is the state of a registry and \<open>'u\<close> a unit object.
  \<^item> \<open>pint_new\<close>: the registry \<open>pint.UnitRegistry()\<close> returns;
  \<^item> \<open>pint_define r text\<close>: \<open>r.define(text)\<close>, the registry after the definition,
    or the exception raised;
  \<^item> \<open>pint_getattr r name\<close>: \<open>getattr(r, name)\<close>;
  \<^item> \<open>pint_parse_units r name\<close>: \<open>r.parse_expression(name).units\<close>;
  \<^item> \<open>pint_str u\<close>: \<open>str(u)\<close>.
  \<open>Inl UndefinedUnitError\<close> is the exception \<open>get_quantity\<close> catches; any other
  \<open>Inl\<close> propagates.
\<close>

record ('r, 'u) pint =
  pint_new :: 'r
  pint_define :: "'r \<Rightarrow> string \<Rightarrow> error + 'r"
  pint_getattr :: "'r \<Rightarrow> string \<Rightarrow> error + 'u"
  pint_parse_units :: "'r \<Rightarrow> string \<Rightarrow> error + 'u"
  pint_str :: "'u \<Rightarrow> string"

section \<open>UnitStore (units.py)\<close>

text \<open>
  A \<open><unit>\<close> element as the parser delivers it: \<open>dict(t.attrib)\<close>, attribute name and
  value. A \<open><units>\<close> element without children and with \<open>base_units="yes"\<close> is
  delivered as the single element \<open>{'base_units': 'yes'}\<close>.
\<close>

type_synonym unit_element = "(string \<times> string) list"

record 'r unit_store =
  ureg :: 'r
  cellml_definitions :: "string \<rightharpoonup> unit_element list"
  cellml_defined :: "string set"

text \<open>\<open>UnitStore.__add_undefined_units\<close>\<close>

definition add_undefined_units :: "('r, 'u) pint \<Rightarrow> 'r \<Rightarrow> error + 'r" where
  "add_undefined_units P r = pint_define P r ''katal = mol / second = kat''"

text \<open>
  \<open>UnitStore.__init__\<close>. The argument is \<open>None\<close> or a dictionary;
  \<open>cellml_def if cellml_def else {}\<close> gives the empty dictionary for \<open>None\<close> (and for
  an empty dictionary, which is the same map).
\<close>

definition unit_store_init ::
  "('r, 'u) pint \<Rightarrow> (string \<rightharpoonup> unit_element list) option \<Rightarrow> error + 'r unit_store" where
  "unit_store_init P cellml_def =
     (case add_undefined_units P (pint_new P) of
        Inl e \<Rightarrow> Inl e
      | Inr r \<Rightarrow>
          Inr \<lparr>ureg = r,
               cellml_definitions = (case cellml_def of None \<Rightarrow> Map.empty | Some d \<Rightarrow> d),
               cellml_defined = {}\<rparr>)"

definition dquote :: char where
  "dquote = CHR 0x22"

text \<open>\<open>'Cannot find the unit with name "%s"' % unit_name\<close>\<close>

definition cannot_find :: "string \<Rightarrow> string" where
  "cannot_find unit_name = ''Cannot find the unit with name '' @ [dquote] @ unit_name @ [dquote]"

text \<open>\<open>sep.join(xs)\<close>\<close>

fun join :: "string \<Rightarrow> string list \<Rightarrow> string" where
  "join sep [] = []"
| "join sep [x] = x"
| "join sep (x # y # ys) = x @ sep @ join sep (y # ys)"

text \<open>
  The expression \<open>_make_cellml_unit\<close> builds for one \<open><unit>\<close> element from the
  printed form of the unit it resolved: the prefix is put in front of it
  (\<open>'%s%s' % (prefix, expr)\<close>), then the exponent wraps it
  (\<open>'((%s)**%s)' % (expr, exponent)\<close>).
\<close>

definition unit_expr :: "unit_element \<Rightarrow> string \<Rightarrow> string" where
  "unit_expr unit_element matched =
     (let expr = matched;
          expr = (case map_of unit_element ''prefix'' of
                    Some p \<Rightarrow> p @ expr
                  | None \<Rightarrow> expr);
          expr = (case map_of unit_element ''exponent'' of
                    Some x \<Rightarrow> ''(('' @ expr @ '')**'' @ x @ '')''
                  | None \<Rightarrow> expr)
      in expr)"

text \<open>
  \<open>UnitStore.get_quantity\<close> and \<open>UnitStore._make_cellml_unit\<close> call each other;
  \<open>unit_exprs\<close> is the \<open>for\<close> loop of \<open>_make_cellml_unit\<close> with \<open>full_unit_expr\<close> as
  its accumulator. Each function returns the result or the exception raised, and the
  store as the call left it. The first argument after the registry operations is the
  number of nested calls the interpreter still allows: a call with none left raises
  \<open>RecursionError\<close>.
\<close>

fun get_quantity ::
    "('r, 'u) pint \<Rightarrow> nat \<Rightarrow> 'r unit_store \<Rightarrow> string \<Rightarrow> (error + 'u) \<times> 'r unit_store"
  and make_cellml_unit ::
    "('r, 'u) pint \<Rightarrow> nat \<Rightarrow> 'r unit_store \<Rightarrow> string \<Rightarrow> (error + string) \<times> 'r unit_store"
  and unit_exprs ::
    "('r, 'u) pint \<Rightarrow> nat \<Rightarrow> 'r unit_store \<Rightarrow> unit_element list \<Rightarrow> string list
       \<Rightarrow> (error + string list) \<times> 'r unit_store"
where
  "get_quantity P 0 s unit_name = (Inl RecursionError, s)"
| "get_quantity P (Suc depth) s unit_name =
     (case (if cellml_definitions s unit_name \<noteq> None \<and> unit_name \<notin> cellml_defined s then
              (case pint_getattr P (ureg s) unit_name of
                 Inr u \<Rightarrow> (None, s)
               | Inl UndefinedUnitError \<Rightarrow>
                   (case make_cellml_unit P depth s unit_name of
                      (Inl e, s1) \<Rightarrow> (Some e, s1)
                    | (Inr unit_definition, s1) \<Rightarrow>
                        (case pint_define P (ureg s1) unit_definition of
                           Inl e \<Rightarrow> (Some e, s1)
                         | Inr r \<Rightarrow>
                             (None, s1\<lparr>ureg := r,
                                       cellml_defined := insert unit_name (cellml_defined s1)\<rparr>)))
               | Inl e \<Rightarrow> (Some e, s))
            else (None, s)) of
        (Some e, s2) \<Rightarrow> (Inl e, s2)
      | (None, s2) \<Rightarrow>
          (case pint_parse_units P (ureg s2) unit_name of
             Inr resolved_unit \<Rightarrow> (Inr resolved_unit, s2)
           | Inl UndefinedUnitError \<Rightarrow> (Inl (ValueError (cannot_find unit_name)), s2)
           | Inl e \<Rightarrow> (Inl e, s2)))"
| "make_cellml_unit P 0 s custom_unit_name = (Inl RecursionError, s)"
| "make_cellml_unit P (Suc depth) s custom_unit_name =
     (case cellml_definitions s custom_unit_name of
        None \<Rightarrow> (Inl (KeyError custom_unit_name), s)
      | Some unit_elements \<Rightarrow>
          (case unit_exprs P depth s unit_elements [] of
             (Inl e, s1) \<Rightarrow> (Inl e, s1)
           | (Inr full_unit_expr, s1) \<Rightarrow>
               (Inr (custom_unit_name @ '' = '' @ join ''*'' full_unit_expr), s1)))"
| "unit_exprs P depth s [] full_unit_expr = (Inr full_unit_expr, s)"
| "unit_exprs P depth s (unit_element # rest) full_unit_expr =
     (case map_of unit_element ''units'' of
        None \<Rightarrow> (Inl (KeyError ''units''), s)
      | Some n \<Rightarrow>
          (case get_quantity P depth s n of
             (Inl e, s1) \<Rightarrow> (Inl e, s1)
           | (Inr matched_unit, s1) \<Rightarrow>
               unit_exprs P depth s1 rest
                 (full_unit_expr @ [unit_expr unit_element (pint_str P matched_unit)])))"

subsection \<open>UnitStore objects and the registries they refer to\<close>

text \<open>
  \<open>self.ureg\<close> is a reference to a registry object that \<open>define\<close> mutates. To state
  what one store's calls do to another store, the registry objects live in a heap (the
  list of the registries allocated so far; a reference is an index) and a UnitStore
  object holds the reference. \<open>new_UnitStore\<close> is the constructor call
  \<open>UnitStore(cellml_def)\<close>: \<open>pint.UnitRegistry()\<close> allocates a registry, and the
  store keeps the reference to it.
\<close>

record unit_store_obj =
  ureg_ref :: nat
  obj_definitions :: "string \<rightharpoonup> unit_element list"
  obj_defined :: "string set"

definition new_UnitStore ::
  "('r, 'u) pint \<Rightarrow> 'r list \<Rightarrow> (string \<rightharpoonup> unit_element list) option
     \<Rightarrow> error + (unit_store_obj \<times> 'r list)" where
  "new_UnitStore P heap cellml_def =
     (case unit_store_init P cellml_def of
        Inl e \<Rightarrow> Inl e
      | Inr s \<Rightarrow>
          Inr (\<lparr>ureg_ref = length heap,
                obj_definitions = cellml_definitions s,
                obj_defined = cellml_defined s\<rparr>,
               heap @ [ureg s]))"

text \<open>The state of a UnitStore object: its own fields and the registry it refers to.\<close>

definition store_of :: "'r list \<Rightarrow> unit_store_obj \<Rightarrow> 'r unit_store" where
  "store_of heap obj =
     \<lparr>ureg = heap ! ureg_ref obj,
      cellml_definitions = obj_definitions obj,
      cellml_defined = obj_defined obj\<rparr>"

text \<open>\<open>obj.get_quantity(unit_name)\<close>: the call's effects written back to the heap and the object.\<close>

definition get_quantity_on ::
  "('r, 'u) pint \<Rightarrow> nat \<Rightarrow> 'r list \<Rightarrow> unit_store_obj \<Rightarrow> string
     \<Rightarrow> (error + 'u) \<times> 'r list \<times> unit_store_obj" where
  "get_quantity_on P depth heap obj unit_name =
     (case get_quantity P depth (store_of heap obj) unit_name of
        (res, s) \<Rightarrow>
          (res, heap[ureg_ref obj := ureg s], obj\<lparr>obj_defined := cellml_defined s\<rparr>))"

subsection \<open>A small registry for concrete models\<close>

text \<open>
  A registry that does what Pint does with a definition before any conversion is asked
  for: it keeps the text, and the name left of \<open>" = "\<close> resolves from then on. A unit
  object is its printed name. The registry starts with a few of Pint's names and aliases.
\<close>

record mini_registry =
  known :: "(string \<times> string) list"
  definitions :: "string list"

definition mini_define :: "mini_registry \<Rightarrow> string \<Rightarrow> error + mini_registry" where
  "mini_define r entry =
     (let name = takeWhile (\<lambda>c. c \<noteq> CHR '' '') entry
      in Inr \<lparr>known = (name, name) # known r, definitions = entry # definitions r\<rparr>)"

definition mini_lookup :: "mini_registry \<Rightarrow> string \<Rightarrow> error + string" where
  "mini_lookup r name =
     (case map_of (known r) name of
        None \<Rightarrow> Inl UndefinedUnitError
      | Some u \<Rightarrow> Inr u)"

definition mini_pint :: "(mini_registry, string) pint" where
  "mini_pint =
     \<lparr>pint_new = \<lparr>known = [(''second'', ''second''), (''millisecond'', ''millisecond''),
                           (''ms'', ''millisecond''), (''volt'', ''volt''), (''mole'', ''mole'')],
                  definitions = []\<rparr>,
      pint_define = mini_define,
      pint_getattr = mini_lookup,
      pint_parse_units = mini_lookup,
      pint_str = (\<lambda>u. u)\<rparr>"

section \<open>The parser (parser.py)\<close>

text \<open>
  A value read with \<open>attrib.get(...)\<close> or \<open>element.get(...)\<close> is a string, or \<open>None\<close>
  when the attribute is absent. \<open>if parent_component:\<close> is false for \<open>None\<close> and for
  the empty string.
\<close>

type_synonym pyname = "string option"

definition truthy :: "pyname \<Rightarrow> bool" where
  "truthy n = (case n of None \<Rightarrow> False | Some s \<Rightarrow> s \<noteq> [])"

definition repr_name :: "pyname \<Rightarrow> string" where
  "repr_name n = (case n of None \<Rightarrow> ''None'' | Some s \<Rightarrow> s)"

text \<open>
  A \<open><component_ref>\<close> element: its \<open>component\<close> attribute and its child
  \<open><component_ref>\<close> elements in document order. A \<open><group>\<close> element: the
  \<open>relationship\<close> attribute of each of its \<open><relationship_ref>\<close> children, and its
  child \<open><component_ref>\<close> elements.
\<close>

datatype component_ref = ComponentRef (ref_component: pyname) (ref_children: "component_ref list")

record group_element =
  relationship_refs :: "pyname list"
  component_refs :: "component_ref list"

text \<open>
  Modelled from the spec: the class \<open>Component\<close> of model.py, which is not among the
  sources. The spec gives a component a name, a parent (none or one, by name), the set
  of the names of the components it encapsulates, the set of its siblings' names and an
  ordered sequence of equations; \<open>add_encapsulated\<close>, \<open>set_parent\<close> and \<open>add_sibling\<close>
  record into these fields.
\<close>

record 'eq component =
  comp_name :: pyname
  parent :: pyname
  encapsulated :: "pyname set"
  siblings :: "pyname set"
  equations :: "'eq list"

definition add_encapsulated :: "'eq component \<Rightarrow> pyname \<Rightarrow> 'eq component" where
  "add_encapsulated c encapsulated_name = c\<lparr>encapsulated := insert encapsulated_name (encapsulated c)\<rparr>"

definition set_parent :: "'eq component \<Rightarrow> pyname \<Rightarrow> 'eq component" where
  "set_parent c parent_name = c\<lparr>parent := parent_name\<rparr>"

definition add_sibling :: "'eq component \<Rightarrow> pyname \<Rightarrow> 'eq component" where
  "add_sibling c sibling_name = c\<lparr>siblings := insert sibling_name (siblings c)\<rparr>"

text \<open>
  \<open>self.model.components\<close>, a dictionary from name to component.
  \<open>self.model.components[name].method(...)\<close> raises \<open>KeyError\<close> for a missing name and
  otherwise changes the component stored under it.
\<close>

type_synonym 'eq components = "pyname \<rightharpoonup> 'eq component"

definition update_component ::
  "'eq components \<Rightarrow> pyname \<Rightarrow> ('eq component \<Rightarrow> 'eq component) \<Rightarrow> error + 'eq components" where
  "update_component comps n f =
     (case comps n of
        None \<Rightarrow> Inl (KeyError (repr_name n))
      | Some c \<Rightarrow> Inr (comps(n \<mapsto> f c)))"

text \<open>
  The last loop of \<open>__handle_component_ref\<close>, over the pairs of
  \<open>itertools.product(siblings, siblings)\<close>.
\<close>

fun register_siblings :: "'eq components \<Rightarrow> (pyname \<times> pyname) list \<Rightarrow> error + 'eq components" where
  "register_siblings comps [] = Inr comps"
| "register_siblings comps ((component_a, component_b) # rest) =
     (if component_a \<noteq> component_b then
        (case update_component comps component_a (\<lambda>c. add_sibling c component_b) of
           Inl e \<Rightarrow> Inl e
         | Inr comps1 \<Rightarrow> register_siblings comps1 rest)
      else register_siblings comps rest)"

text \<open>
  \<open>Parser.__handle_component_ref(parent_tag, parent_component)\<close>; the second argument
  is the list \<open>parent_tag.findall(component_ref)\<close>. \<open>for_each_ref\<close> is its first loop.
\<close>

fun handle_component_ref ::
    "'eq components \<Rightarrow> component_ref list \<Rightarrow> pyname \<Rightarrow> error + 'eq components"
  and for_each_ref ::
    "'eq components \<Rightarrow> component_ref list \<Rightarrow> pyname \<Rightarrow> error + 'eq components"
where
  "handle_component_ref comps refs parent_component =
     (case for_each_ref comps refs parent_component of
        Inl e \<Rightarrow> Inl e
      | Inr comps1 \<Rightarrow>
          (let siblings = map ref_component refs
           in if truthy parent_component \<and> length siblings > 1
              then register_siblings comps1 (List.product siblings siblings)
              else Inr comps1))"
| "for_each_ref comps [] parent_component = Inr comps"
| "for_each_ref comps (ComponentRef child_component kids # rest) parent_component =
     (case (if truthy parent_component then
              (case update_component comps parent_component
                      (\<lambda>c. add_encapsulated c child_component) of
                 Inl e \<Rightarrow> Inl e
               | Inr comps1 \<Rightarrow>
                   update_component comps1 child_component (\<lambda>c. set_parent c parent_component))
            else Inr comps) of
        Inl e \<Rightarrow> Inl e
      | Inr comps2 \<Rightarrow>
          (case handle_component_ref comps2 kids child_component of
             Inl e \<Rightarrow> Inl e
           | Inr comps3 \<Rightarrow> for_each_ref comps3 rest parent_component))"

text \<open>\<open>Parser.__add_relationships\<close>, over the \<open><group>\<close> elements of the model.\<close>

fun add_relationships :: "'eq components \<Rightarrow> group_element list \<Rightarrow> error + 'eq components" where
  "add_relationships comps [] = Inr comps"
| "add_relationships comps (group_element # rest) =
     (case relationship_refs group_element of
        [relationship] \<Rightarrow>
          (case (if relationship = Some ''encapsulation''
                 then handle_component_ref comps (component_refs group_element) None
                 else Inr comps) of
             Inl e \<Rightarrow> Inl e
           | Inr comps1 \<Rightarrow> add_relationships comps1 rest)
      | _ \<Rightarrow> Inl AssertionError)"

subsection \<open>The relations a tree of component references declares\<close>

text \<open>
  What the spec says the walk records, written down without the walk's state: the
  parent-to-child pairs of the tree in depth-first order (a node under no named parent
  gives none), and for every named parent with more than one child the pairs of distinct
  names among its children.
\<close>

fun edges :: "pyname \<Rightarrow> component_ref list \<Rightarrow> (pyname \<times> pyname) list" where
  "edges p [] = []"
| "edges p (ComponentRef c kids # rest) =
     (if truthy p then [(p, c)] else []) @ edges c kids @ edges p rest"

fun sibling_pairs :: "pyname \<Rightarrow> component_ref list \<Rightarrow> (pyname \<times> pyname) list"
  and sibling_pairs_below :: "component_ref list \<Rightarrow> (pyname \<times> pyname) list"
where
  "sibling_pairs p refs =
     sibling_pairs_below refs @
     (if truthy p \<and> length refs > 1
      then filter (\<lambda>(a, b). a \<noteq> b) (List.product (map ref_component refs) (map ref_component refs))
      else [])"
| "sibling_pairs_below [] = []"
| "sibling_pairs_below (ComponentRef c kids # rest) = sibling_pairs c kids @ sibling_pairs_below rest"

text \<open>The parent the pairs leave a component with: that of the last pair naming it as child.\<close>

definition last_parent :: "(pyname \<times> pyname) list \<Rightarrow> pyname \<Rightarrow> pyname option" where
  "last_parent es n =
     (let ps = filter (\<lambda>(p, c). c = n) es
      in if ps = [] then None else Some (fst (last ps)))"

definition record_relations ::
  "(pyname \<times> pyname) list \<Rightarrow> (pyname \<times> pyname) list \<Rightarrow> 'eq components \<Rightarrow> 'eq components" where
  "record_relations es ss comps =
     (\<lambda>n. case comps n of
             None \<Rightarrow> None
           | Some c \<Rightarrow>
               Some (c\<lparr>parent := (case last_parent es n of None \<Rightarrow> parent c | Some p \<Rightarrow> p),
                       encapsulated := encapsulated c \<union> {x. (n, x) \<in> set es},
                       siblings := siblings c \<union> {b. (n, b) \<in> set ss}\<rparr>))"

text \<open>
  The same for the \<open><group>\<close> elements of a model: only a group whose single
  \<open><relationship_ref>\<close> says \<open>encapsulation\<close> declares relations, and its top-level
  component references stand under no parent.
\<close>

definition is_encapsulation :: "group_element \<Rightarrow> bool" where
  "is_encapsulation g \<longleftrightarrow> relationship_refs g = [Some ''encapsulation'']"

definition group_edges :: "group_element list \<Rightarrow> (pyname \<times> pyname) list" where
  "group_edges gs = concat (map (\<lambda>g. edges None (component_refs g)) (filter is_encapsulation gs))"

definition group_sibling_pairs :: "group_element list \<Rightarrow> (pyname \<times> pyname) list" where
  "group_sibling_pairs gs =
     concat (map (\<lambda>g. sibling_pairs None (component_refs g)) (filter is_encapsulation gs))"

subsection \<open>The mathematics of a component\<close>

text \<open>
  \<open>mathml2sympy.Transpiler\<close>, \<open>SYMPY_SYMBOL_DELIMITER\<close> and
  \<open>Component.collect_variable_attributes\<close> are not among the sources; they are
  parameters. \<open>parse_string prefix m\<close> is the list of equations and the metadata a
  transpiler made with \<open>symbol_prefix = prefix\<close> returns for the \<open><math>\<close> element
  \<open>m\<close>.
\<close>

record ('m, 'eq, 'meta) transpiler =
  symbol_delimiter :: string
  parse_string :: "string \<Rightarrow> 'm \<Rightarrow> 'eq list \<times> 'meta"
  collect_variable_attributes :: "'eq component \<Rightarrow> 'meta \<Rightarrow> error + 'eq component"

text \<open>
  \<open>Parser.__add_maths\<close>. The second argument is the list of the \<open><math>\<close> children of
  the \<open><component>\<close> element in document order; \<open>find\<close> returns the first of them, or
  \<open>None\<close> when there is none.
\<close>

definition add_maths ::
  "('m, 'eq, 'meta) transpiler \<Rightarrow> 'eq component \<Rightarrow> 'm list \<Rightarrow> error + 'eq component" where
  "add_maths T component math_elements =
     (case math_elements of
        [] \<Rightarrow> Inr component
      | math_element # _ \<Rightarrow>
          (case comp_name component of
             None \<Rightarrow> Inl TypeError
           | Some name \<Rightarrow>
               (case parse_string T (name @ symbol_delimiter T) math_element of
                  (sympy_exprs, metadata) \<Rightarrow>
                    collect_variable_attributes T
                      (component\<lparr>equations := equations component @ sympy_exprs\<rparr>) metadata)))"

text \<open>
  A transpiler for concrete evaluation: a \<open><math>\<close> element is the list of its
  equations, each printed as a string, and collecting the metadata changes nothing.
\<close>

definition list_transpiler :: "(string list, string, unit) transpiler" where
  "list_transpiler =
     \<lparr>symbol_delimiter = ''$'',
      parse_string = (\<lambda>prefix m. (m, ())),
      collect_variable_attributes = (\<lambda>c meta. Inr c)\<rparr>"

section \<open>Concrete stores\<close>

text \<open>The registry of a new store: the small registry after \<open>__add_undefined_units\<close>.\<close>

definition katal_registry :: mini_registry where
  "katal_registry =
     \<lparr>known = (''katal'', ''katal'') # known (pint_new mini_pint),
      definitions = [''katal = mol / second = kat'']\<rparr>"

text \<open>A store with no custom definitions, over the small registry.\<close>

definition bare_store :: "mini_registry unit_store" where
  "bare_store = \<lparr>ureg = pint_new mini_pint, cellml_definitions = Map.empty, cellml_defined = {}\<rparr>"

text \<open>
  A model that declares \<open>unit_x\<close> as \<open>unit_y\<close> squared times milli-\<open>unit_z\<close> and
  declares \<open>unit_y\<close> and \<open>unit_z\<close> after it, and the store built for it.
\<close>

definition scenario_defs :: "(string \<times> unit_element list) list" where
  "scenario_defs =
     [(''unit_x'', [[(''units'', ''unit_y''), (''exponent'', ''2'')],
                    [(''units'', ''unit_z''), (''prefix'', ''milli'')]]),
      (''unit_y'', [[(''units'', ''mole'')], [(''units'', ''ms''), (''exponent'', ''-1'')]]),
      (''unit_z'', [[(''units'', ''volt'')]])]"

definition scenario_store :: "mini_registry unit_store" where
  "scenario_store =
     \<lparr>ureg = katal_registry, cellml_definitions = map_of scenario_defs, cellml_defined = {}\<rparr>"

text \<open>The store after \<open>unit_x\<close> has been resolved.\<close>

definition scenario_result :: "mini_registry unit_store" where
  "scenario_result =
     \<lparr>ureg = \<lparr>known = [(''unit_x'', ''unit_x''), (''unit_z'', ''unit_z''), (''unit_y'', ''unit_y'')]
                       @ known katal_registry,
               definitions = [''unit_x = ((unit_y)**2)*milliunit_z'',
                              ''unit_z = volt'',
                              ''unit_y = mole*((millisecond)**-1)'',
                              ''katal = mol / second = kat'']\<rparr>,
      cellml_definitions = map_of scenario_defs,
      cellml_defined = {''unit_x'', ''unit_y'', ''unit_z''}\<rparr>"

text \<open>
  A model that declares a base unit (\<open><units name="new_base" base_units="yes"/>\<close>) and a
  unit derived from it.
\<close>

definition base_unit_store :: "mini_registry unit_store" where
  "base_unit_store =
     \<lparr>ureg = katal_registry,
      cellml_definitions = map_of [(''derived'', [[(''units'', ''new_base'')],
                                                  [(''units'', ''second''), (''exponent'', ''-1'')]]),
                                   (''new_base'', [[(''base_units'', ''yes'')]])],
      cellml_defined = {}\<rparr>"

text \<open>A model that declares \<open>u7\<close> in terms of a unit that nothing defines.\<close>

definition unbuildable_store :: "mini_registry unit_store" where
  "unbuildable_store =
     \<lparr>ureg = katal_registry,
      cellml_definitions = map_of [(''u7'', [[(''units'', ''zzz_not_a_unit'')]])],
      cellml_defined = {}\<rparr>"

text \<open>
  The small registry with Pint's reading of the name \<open>2\<close>: \<open>parse_expression('2')\<close> is
  the number 2, which has no \<open>units\<close>.
\<close>

definition number_pint :: "(mini_registry, string) pint" where
  "number_pint =
     mini_pint\<lparr>pint_parse_units :=
                 (\<lambda>r name. if name = ''2'' then Inl AttributeError else mini_lookup r name)\<rparr>"

text \<open>A model that declares a unit under a name the registry already knows.\<close>

definition colliding_store :: "mini_registry unit_store" where
  "colliding_store =
     \<lparr>ureg = katal_registry,
      cellml_definitions = map_of [(''volt'', [[(''units'', ''second'')]])],
      cellml_defined = {}\<rparr>"

text \<open>Two stores created one after the other for the same model, and the heap they share.\<close>

definition two_stores :: "mini_registry list" where
  "two_stores = [katal_registry, katal_registry]"

definition scenario_obj :: "nat \<Rightarrow> unit_store_obj" where
  "scenario_obj i = \<lparr>ureg_ref = i, obj_definitions = map_of scenario_defs, obj_defined = {}\<rparr>"

text \<open>A component \<open>A\<close> without equations.\<close>

definition component_A :: "string component" where
  "component_A = \<lparr>comp_name = Some ''A'', parent = None, encapsulated = {}, siblings = {},
                  equations = []\<rparr>"

text \<open>
  The hierarchy the repository's test reads (\<open>test_group_relationships\<close>): \<open>circle_parent\<close>
  encapsulates \<open>circle_x\<close> and \<open>circle_y\<close>, \<open>circle_x\<close> encapsulates
  \<open>circle_x_source\<close> and \<open>circle_x_sibling\<close>, \<open>circle_y\<close> encapsulates
  \<open>circle_y_implementation\<close>; and a group of another relationship kind.
\<close>

definition new_component :: "string \<Rightarrow> string component" where
  "new_component n = \<lparr>comp_name = Some n, parent = None, encapsulated = {}, siblings = {},
                      equations = []\<rparr>"

definition circle_components :: "string components" where
  "circle_components =
     map_of (map (\<lambda>n. (Some n, new_component n))
       [''circle_parent'', ''circle_x'', ''circle_x_source'', ''circle_x_sibling'',
        ''circle_y'', ''circle_y_implementation''])"

definition circle_group :: group_element where
  "circle_group =
     \<lparr>relationship_refs = [Some ''encapsulation''],
      component_refs =
        [ComponentRef (Some ''circle_parent'')
           [ComponentRef (Some ''circle_x'')
              [ComponentRef (Some ''circle_x_source'') [],
               ComponentRef (Some ''circle_x_sibling'') []],
            ComponentRef (Some ''circle_y'')
              [ComponentRef (Some ''circle_y_implementation'') []]]]\<rparr>"

definition containment_group :: group_element where
  "containment_group =
     \<lparr>relationship_refs = [Some ''containment''],
      component_refs =
        [ComponentRef (Some ''circle_parent'')
           [ComponentRef (Some ''circle_y_implementation'') []]]\<rparr>"

definition circle_result :: "string components" where
  "circle_result =
     record_relations (group_edges [containment_group, circle_group])
       (group_sibling_pairs [containment_group, circle_group]) circle_components"

section \<open>Unit equality and conversion factors\<close>

lemmas exact_defs = exact_quantities_def exact_to_def exact_isclose_def second_def millisecond_def
  volt_def kelvin_def celsius_def one_times_def quantity_to_def

text \<open>
  C1 as stated, true exactly when the dimensionalities agree and the scale factor between
  the two units is 1, fails for celsius and kelvin: they have the same dimensionality and
  the same scale, and \<open>is_unit_equal\<close> returns \<open>False\<close>, because one degree celsius
  converts to 274.15 kelvin.
\<close>

theorem celsius_kelvin_not_equal:
  "qty_dimensionality exact_quantities celsius = qty_dimensionality exact_quantities kelvin
   \<and> factor celsius / factor kelvin = 1
   \<and> is_unit_equal exact_quantities (AUnit celsius) (AUnit kelvin) = Inr False"
  by (simp add: is_unit_equal_def exact_defs)

text \<open>
  C1 (amended). Let \<open>u1\<close> and \<open>u2\<close> be units between which Pint, when their
  dimensionalities agree, converts by a scale factor \<open>k\<close>: every magnitude \<open>m\<close> in
  \<open>u1\<close> becomes \<open>m\<close> times \<open>k\<close> in \<open>u2\<close> (\<open>mul\<close> is the multiplication Pint uses,
  and 1 times \<open>k\<close> is \<open>k\<close>). Then \<open>is_unit_equal\<close> raises nothing and returns true
  exactly when the dimensionalities are equal and \<open>math.isclose(k, 1)\<close>.
\<close>

theorem is_unit_equal_multiplicative:
  assumes "qty_dimensionality Q u1 = qty_dimensionality Q u2 \<longrightarrow>
             (\<forall>m. qty_to Q m u1 u2 = Inr (mul m k))"
    and "mul 1 k = k"
  shows "is_unit_equal Q (AUnit u1) (AUnit u2) =
           Inr (qty_dimensionality Q u1 = qty_dimensionality Q u2 \<and> qty_isclose Q k 1)"
  using assms by (simp add: is_unit_equal_def one_times_def quantity_to_def)

theorem is_unit_equal_multiplicative_witness:
  "is_unit_equal exact_quantities (AUnit second) (AUnit millisecond) = Inr False
   \<and> is_unit_equal exact_quantities (AUnit millisecond) (AUnit second) = Inr False
   \<and> is_unit_equal exact_quantities (AUnit second) (AUnit second) = Inr True
   \<and> is_unit_equal exact_quantities (AUnit volt) (AUnit second) = Inr False"
proof -
  have a: "qty_dimensionality exact_quantities second = qty_dimensionality exact_quantities millisecond \<longrightarrow>
             (\<forall>m. qty_to exact_quantities m second millisecond = Inr (m * 1000))"
    by (simp add: exact_defs)
  have b: "qty_dimensionality exact_quantities millisecond = qty_dimensionality exact_quantities second \<longrightarrow>
             (\<forall>m. qty_to exact_quantities m millisecond second = Inr (m * (1 / 1000)))"
    by (simp add: exact_defs)
  have c: "qty_dimensionality exact_quantities second = qty_dimensionality exact_quantities second \<longrightarrow>
             (\<forall>m. qty_to exact_quantities m second second = Inr (m * 1))"
    by (simp add: exact_defs)
  have d: "qty_dimensionality exact_quantities volt = qty_dimensionality exact_quantities second \<longrightarrow>
             (\<forall>m. qty_to exact_quantities m volt second = Inr (m * 1))"
    by (simp add: exact_defs)
  have one: "(1::rat) * k = k" for k by simp
  from is_unit_equal_multiplicative [of exact_quantities second millisecond "(*)" 1000, OF a one]
       is_unit_equal_multiplicative [of exact_quantities millisecond second "(*)" "1 / 1000", OF b one]
       is_unit_equal_multiplicative [of exact_quantities second second "(*)" 1, OF c one]
       is_unit_equal_multiplicative [of exact_quantities volt second "(*)" 1, OF d one]
  show ?thesis
    by (simp add: exact_defs)
qed

text \<open>
  C4 as stated, that the number returned is the multiplicative factor that converts a
  magnitude, fails for celsius to kelvin: \<open>get_conversion_factor\<close> returns 274.15, and
  2 degrees celsius are 275.15 kelvin, not 2 times 274.15.
\<close>

theorem celsius_factor_counterexample:
  "qty_dimensionality exact_quantities celsius = qty_dimensionality exact_quantities kelvin
   \<and> get_conversion_factor exact_quantities (AUnit celsius) (AUnit kelvin) = Inr (5483 / 20)
   \<and> convert_to exact_quantities (AQuantity \<lparr>magnitude = 2, units = celsius\<rparr>) (AUnit kelvin) =
        Inr \<lparr>magnitude = 5503 / 20, units = kelvin\<rparr>
   \<and> 2 * (5483 / 20) \<noteq> (5503 / 20 :: rat)"
  by (simp add: convert_to_def exact_defs)

text \<open>
  C4 (amended). \<open>get_conversion_factor\<close> fails (its assertion) when the two units differ
  in dimensionality. When they agree it returns the magnitude of one \<open>from_unit\<close>
  expressed in \<open>to_unit\<close>, which is what \<open>convert_to\<close> gives for the two units. Where
  Pint converts between the two units by a scale factor \<open>k\<close>, the number returned is
  \<open>k\<close>, and \<open>convert_to\<close> takes every magnitude \<open>m\<close> in \<open>from_unit\<close> to \<open>m\<close> times
  \<open>k\<close> in \<open>to_unit\<close>.
\<close>

theorem get_conversion_factor_spec:
  "(qty_dimensionality Q a \<noteq> qty_dimensionality Q b \<longrightarrow>
      get_conversion_factor Q (AUnit a) (AUnit b) = Inl AssertionError)
   \<and> (qty_dimensionality Q a = qty_dimensionality Q b \<longrightarrow>
      get_conversion_factor Q (AUnit a) (AUnit b) =
        (case convert_to Q (AUnit a) (AUnit b) of
           Inl e \<Rightarrow> Inl e
         | Inr q \<Rightarrow> Inr (magnitude q)))
   \<and> (qty_dimensionality Q a = qty_dimensionality Q b
        \<and> (\<forall>m. qty_to Q m a b = Inr (mul m k)) \<and> mul 1 k = k \<longrightarrow>
      get_conversion_factor Q (AUnit a) (AUnit b) = Inr k
      \<and> (\<forall>m. convert_to Q (AQuantity \<lparr>magnitude = m, units = a\<rparr>) (AUnit b) =
                Inr \<lparr>magnitude = mul m k, units = b\<rparr>))"
  by (simp add: convert_to_def quantity_to_def one_times_def)

theorem get_conversion_factor_spec_witness:
  "get_conversion_factor exact_quantities (AUnit volt) (AUnit second) = Inl AssertionError
   \<and> get_conversion_factor exact_quantities (AUnit second) (AUnit millisecond) = Inr 1000
   \<and> convert_to exact_quantities (AUnit second) (AUnit millisecond) =
        Inr \<lparr>magnitude = 1000, units = millisecond\<rparr>
   \<and> convert_to exact_quantities (AQuantity \<lparr>magnitude = 3, units = second\<rparr>) (AUnit millisecond) =
        Inr \<lparr>magnitude = 3000, units = millisecond\<rparr>"
proof -
  have m: "qty_dimensionality exact_quantities second = qty_dimensionality exact_quantities millisecond
        \<and> (\<forall>m. qty_to exact_quantities m second millisecond = Inr (m * 1000)) \<and> (1::rat) * 1000 = 1000"
    by (simp add: exact_defs)
  have v: "qty_dimensionality exact_quantities volt \<noteq> qty_dimensionality exact_quantities second"
    by (simp add: exact_defs)
  from get_conversion_factor_spec [of exact_quantities volt second "(*)" 1000] v
  have one: "get_conversion_factor exact_quantities (AUnit volt) (AUnit second) = Inl AssertionError"
    by blast
  from get_conversion_factor_spec [of exact_quantities second millisecond "(*)" 1000] m
  have two: "get_conversion_factor exact_quantities (AUnit second) (AUnit millisecond) = Inr 1000"
    and three: "\<forall>m. convert_to exact_quantities (AQuantity \<lparr>magnitude = m, units = second\<rparr>)
                   (AUnit millisecond) = Inr \<lparr>magnitude = m * 1000, units = millisecond\<rparr>"
    by blast+
  have four: "convert_to exact_quantities (AUnit second) (AUnit millisecond) =
        Inr \<lparr>magnitude = 1000, units = millisecond\<rparr>"
    by (simp add: convert_to_def exact_defs)
  from one two three four show ?thesis by simp
qed

lemma reciprocal_close:
  fixes A kab kba r eta :: rat
  assumes A: "0 < A" and e0: "0 \<le> eta" and e1: "eta \<le> 1 / 10000000000"
    and ab: "\<bar>kab - A\<bar> \<le> eta * A"
    and ba: "\<bar>kba - 1 / A\<bar> \<le> eta * (1 / A)"
    and dv: "\<bar>r - 1 / kab\<bar> \<le> eta * \<bar>1 / kab\<bar>"
  shows "\<bar>kba - r\<bar> \<le> max \<bar>kba\<bar> \<bar>r\<bar> / 2000000000"
proof -
  define B where "B = 1 / A"
  have B: "0 < B" and AB: "A * B = 1" using A by (simp_all add: B_def)
  have kab_lo: "(1 - eta) * A \<le> kab" and kab_hi: "kab \<le> (1 + eta) * A"
    using ab by (simp_all add: abs_le_iff algebra_simps)
  have e_lt: "eta < 1" using e1 by simp
  have kab_pos: "0 < kab"
  proof -
    have "0 < (1 - eta) * A" using A e_lt by simp
    with kab_lo show ?thesis by simp
  qed
  have ba': "\<bar>kba - B\<bar> \<le> eta * B" using ba by (simp add: B_def)
  have kba_lo: "(1 - eta) * B \<le> kba" and kba_hi: "kba \<le> (1 + eta) * B"
    using ba' by (simp_all add: abs_le_iff algebra_simps)
  have kba_pos: "0 < kba"
  proof -
    have "0 < (1 - eta) * B" using B e_lt by simp
    with kba_lo show ?thesis by simp
  qed
  define C where "C = 1 / kab"
  have C: "0 < C" and CK: "C * kab = 1" using kab_pos by (simp_all add: C_def)
  have dv': "\<bar>r - C\<bar> \<le> eta * C" using dv kab_pos by (simp add: C_def)
  have r_hi': "r \<le> (1 + eta) * C" and r_lo': "(1 - eta) * C \<le> r"
    using dv' by (simp_all add: abs_le_iff algebra_simps)
  have rk_hi: "r * kab \<le> 1 + eta"
  proof -
    have "r * kab \<le> (1 + eta) * C * kab"
      using r_hi' kab_pos by (simp add: mult_right_mono)
    then show ?thesis using CK by (simp add: mult.assoc)
  qed
  have rk_lo: "1 - eta \<le> r * kab"
  proof -
    have "(1 - eta) * C * kab \<le> r * kab"
      using r_lo' kab_pos by (simp add: mult_right_mono)
    then show ?thesis using CK by (simp add: mult.assoc)
  qed
  have r_pos: "0 < r"
  proof -
    have "0 < (1 - eta) * C" using C e_lt by simp
    with r_lo' show ?thesis by simp
  qed
  have ee: "eta * eta \<le> eta / 10000000000"
    using mult_left_mono [OF e1 e0] by simp
  have r_hi: "r \<le> (1 + 3 * eta) * B"
  proof (rule ccontr)
    assume "\<not> r \<le> (1 + 3 * eta) * B"
    then have big: "(1 + 3 * eta) * B < r" by simp
    have "(1 + 3 * eta) * B * ((1 - eta) * A) < r * ((1 - eta) * A)"
      using big A e_lt by (simp add: mult_strict_right_mono)
    also have "\<dots> \<le> r * kab"
      using kab_lo r_pos by (simp add: mult_left_mono)
    finally have "(1 + 3 * eta) * (1 - eta) * (A * B) < r * kab"
      by (simp add: algebra_simps)
    then have "(1 + 3 * eta) * (1 - eta) < 1 + eta" using AB rk_hi by simp
    then have "eta < 3 * (eta * eta)" by (simp add: algebra_simps)
    with ee e0 show False by simp
  qed
  have r_lo: "(1 - 2 * eta) * B \<le> r"
  proof (rule ccontr)
    assume "\<not> (1 - 2 * eta) * B \<le> r"
    then have small: "r < (1 - 2 * eta) * B" by simp
    have "r * kab \<le> r * ((1 + eta) * A)"
      using kab_hi r_pos by (simp add: mult_left_mono)
    also have "\<dots> < (1 - 2 * eta) * B * ((1 + eta) * A)"
      using small A e0 by (simp add: mult_strict_right_mono)
    finally have "r * kab < (1 - 2 * eta) * (1 + eta) * (A * B)"
      by (simp add: algebra_simps)
    then have "1 - eta < (1 - 2 * eta) * (1 + eta)" using AB rk_lo by simp
    then have "2 * (eta * eta) < 0" by (simp add: algebra_simps)
    then show False by (simp add: mult_less_0_iff)
  qed
  have diff: "\<bar>kba - r\<bar> \<le> 4 * eta * B"
  proof -
    have "kba - r \<le> (1 + eta) * B - (1 - 2 * eta) * B" using kba_hi r_lo by simp
    moreover have "r - kba \<le> (1 + 3 * eta) * B - (1 - eta) * B" using r_hi kba_lo by simp
    moreover have "0 \<le> eta * B" using e0 B by simp
    ultimately show ?thesis by (simp add: abs_le_iff algebra_simps)
  qed
  have "4 * eta \<le> (1 - eta) / 2000000000" using e1 by simp
  then have "4 * eta * B \<le> (1 - eta) / 2000000000 * B"
    using B by (simp add: mult_right_mono)
  also have "\<dots> = ((1 - eta) * B) / 2000000000" by simp
  also have "\<dots> \<le> kba / 2000000000" using kba_lo by (simp add: divide_right_mono)
  also have "\<dots> \<le> max \<bar>kba\<bar> \<bar>r\<bar> / 2000000000"
    using kba_pos by (simp add: divide_right_mono)
  finally show ?thesis using diff by simp
qed


text \<open>
  C5 as stated, for all compatible pairs, fails for celsius and kelvin: the two factors
  are 274.15 and -272.15.
\<close>

theorem celsius_round_trip_counterexample:
  "get_conversion_factor exact_quantities (AUnit celsius) (AUnit kelvin) = Inr (5483 / 20)
   \<and> get_conversion_factor exact_quantities (AUnit kelvin) (AUnit celsius) = Inr (- (5443 / 20))
   \<and> \<not> qty_isclose exact_quantities (- (5443 / 20)) (1 / (5483 / 20))"
  by (simp add: exact_defs)

text \<open>
  C5 (amended). Let \<open>a\<close> and \<open>b\<close> have the same dimensionality, and let the factors
  Pint gives for \<open>a\<close> to \<open>b\<close> and for \<open>b\<close> to \<open>a\<close> approximate a ratio \<open>A\<close> and its
  reciprocal to within a relative error of \<open>1e-10\<close> (units without offset; \<open>A\<close> is the
  ratio of their scales). Let \<open>r\<close> be what Python computes for 1 divided by the first
  factor, to within the same relative error, and let \<open>math.isclose\<close> accept every two
  numbers that differ by at most half its relative tolerance. Then the factor from \<open>b\<close> to
  \<open>a\<close> is close to \<open>r\<close>.
\<close>

theorem conversion_round_trip:
  fixes A eta kab kba r :: rat
  assumes "0 < A" and "0 \<le> eta" and "eta \<le> 1 / 10000000000"
    and "qty_dimensionality Q a = qty_dimensionality Q b"
    and "qty_to Q 1 a b = Inr kab" and "\<bar>kab - A\<bar> \<le> eta * A"
    and "qty_to Q 1 b a = Inr kba" and "\<bar>kba - 1 / A\<bar> \<le> eta * (1 / A)"
    and "\<bar>r - 1 / kab\<bar> \<le> eta * \<bar>1 / kab\<bar>"
    and "\<forall>x y. \<bar>x - y\<bar> \<le> max \<bar>x\<bar> \<bar>y\<bar> / 2000000000 \<longrightarrow> qty_isclose Q x y"
  shows "get_conversion_factor Q (AUnit a) (AUnit b) = Inr kab
         \<and> get_conversion_factor Q (AUnit b) (AUnit a) = Inr kba
         \<and> qty_isclose Q kba r"
proof -
  have "\<bar>kba - r\<bar> \<le> max \<bar>kba\<bar> \<bar>r\<bar> / 2000000000"
    using assms(1,2,3,6,8,9) by (rule reciprocal_close)
  with assms(10) have "qty_isclose Q kba r" by blast
  with assms(4,5,7) show ?thesis
    by (simp add: quantity_to_def one_times_def)
qed

theorem conversion_round_trip_witness:
  "get_conversion_factor exact_quantities (AUnit second) (AUnit millisecond) = Inr 1000
   \<and> get_conversion_factor exact_quantities (AUnit millisecond) (AUnit second) = Inr (1 / 1000)
   \<and> qty_isclose exact_quantities (1 / 1000) (1 / 1000)"
proof -
  have h1: "(0::rat) < 1000" and h2: "(0::rat) \<le> 0" and h3: "(0::rat) \<le> 1 / 10000000000"
    by simp_all
  have h4: "qty_dimensionality exact_quantities second = qty_dimensionality exact_quantities millisecond"
    by (simp add: exact_defs)
  have h5: "qty_to exact_quantities 1 second millisecond = Inr 1000"
    by (simp add: exact_defs)
  have h6: "\<bar>1000 - 1000\<bar> \<le> (0::rat) * 1000" by simp
  have h7: "qty_to exact_quantities 1 millisecond second = Inr (1 / 1000)"
    by (simp add: exact_defs)
  have h8: "\<bar>1 / 1000 - 1 / 1000\<bar> \<le> (0::rat) * (1 / 1000)" by simp
  have h9: "\<bar>1 / 1000 - 1 / 1000\<bar> \<le> (0::rat) * \<bar>1 / 1000\<bar>" by simp
  have h10: "\<forall>x y. \<bar>x - y\<bar> \<le> max \<bar>x\<bar> \<bar>y\<bar> / 2000000000 \<longrightarrow> qty_isclose exact_quantities x y"
  proof (intro allI impI)
    fix x y :: rat
    assume le: "\<bar>x - y\<bar> \<le> max \<bar>x\<bar> \<bar>y\<bar> / 2000000000"
    define M where "M = max \<bar>x\<bar> \<bar>y\<bar>"
    have "0 \<le> M" by (simp add: M_def)
    then have "M / 2000000000 \<le> M / 1000000000" by simp
    then have "max \<bar>x\<bar> \<bar>y\<bar> / 2000000000 \<le> max \<bar>x\<bar> \<bar>y\<bar> / 1000000000"
      by (simp only: M_def)
    with le show "qty_isclose exact_quantities x y"
      by (simp add: exact_quantities_def exact_isclose_def)
  qed
  from conversion_round_trip [OF h1 h2 h3 h4 h5 h6 h7 h8 h9 h10]
  show ?thesis .
qed

section \<open>Resolving unit names\<close>

lemma unbuildable_run:
  "get_quantity mini_pint (Suc (Suc (Suc depth))) unbuildable_store ''u7'' =
     (Inl (ValueError (cannot_find ''zzz_not_a_unit'')), unbuildable_store)"
  by (simp add: unbuildable_store_def katal_registry_def mini_pint_def mini_lookup_def)

text \<open>
  C2 as stated, for every name that the registry does not resolve and that cannot be
  built from a declared definition, fails for \<open>u7\<close>, declared in terms of a unit nothing
  defines: \<open>get_quantity('u7')\<close> raises \<open>ValueError\<close>, and the message names
  \<open>zzz_not_a_unit\<close>, not \<open>u7\<close>.
\<close>

theorem unbuildable_unit_counterexample:
  "cellml_definitions unbuildable_store ''u7'' = Some [[(''units'', ''zzz_not_a_unit'')]]
   \<and> pint_parse_units mini_pint (ureg unbuildable_store) ''u7'' = Inl UndefinedUnitError
   \<and> get_quantity mini_pint 1000 unbuildable_store ''u7'' =
       (Inl (ValueError (''Cannot find the unit with name '' @ [CHR 0x22] @ ''zzz_not_a_unit''
                          @ [CHR 0x22])), unbuildable_store)
   \<and> ''Cannot find the unit with name '' @ [CHR 0x22] @ ''zzz_not_a_unit'' @ [CHR 0x22]
       \<noteq> ''Cannot find the unit with name '' @ [CHR 0x22] @ ''u7'' @ [CHR 0x22]"
proof -
  have "(1000::nat) = Suc (Suc (Suc 997))" by simp
  then have "get_quantity mini_pint 1000 unbuildable_store ''u7'' =
     (Inl (ValueError (cannot_find ''zzz_not_a_unit'')), unbuildable_store)"
    using unbuildable_run [of 997] by simp
  then show ?thesis
    by (simp add: cannot_find_def dquote_def unbuildable_store_def katal_registry_def
        mini_pint_def mini_lookup_def)
qed

text \<open>
  C2 (amended). For every name that the model does not declare and for which the
  registry's parse raises \<open>UndefinedUnitError\<close>, \<open>get_quantity\<close> raises \<open>ValueError\<close>
  with the message \<open>Cannot find the unit with name "<name>"\<close>, and leaves the store as
  it was. Any other exception of the parse is raised as it is (the name \<open>2\<close> ends in
  \<open>AttributeError\<close>). For a declared name that has to be built and whose build fails,
  \<open>get_quantity\<close> raises the error of the build: a \<open>ValueError\<close> naming the unit of the
  definition that cannot be found, a \<open>KeyError\<close> or a \<open>RecursionError\<close>.
\<close>

theorem get_quantity_failure:
  "(cellml_definitions s n = None \<and> pint_parse_units P (ureg s) n = Inl UndefinedUnitError \<longrightarrow>
      get_quantity P (Suc depth) s n =
        (Inl (ValueError (''Cannot find the unit with name '' @ [CHR 0x22] @ n @ [CHR 0x22])), s))
   \<and> (cellml_definitions s n = None \<and> pint_parse_units P (ureg s) n = Inl e
        \<and> e \<noteq> UndefinedUnitError \<longrightarrow>
      get_quantity P (Suc depth) s n = (Inl e, s))
   \<and> (cellml_definitions s n \<noteq> None \<and> n \<notin> cellml_defined s
        \<and> pint_getattr P (ureg s) n = Inl UndefinedUnitError
        \<and> make_cellml_unit P depth s n = (Inl e', s') \<longrightarrow>
      get_quantity P (Suc depth) s n = (Inl e', s'))"
proof -
  have one: "cellml_definitions s n = None \<and> pint_parse_units P (ureg s) n = Inl UndefinedUnitError \<longrightarrow>
      get_quantity P (Suc depth) s n =
        (Inl (ValueError (''Cannot find the unit with name '' @ [CHR 0x22] @ n @ [CHR 0x22])), s)"
    by (simp add: cannot_find_def dquote_def)
  have two: "cellml_definitions s n = None \<and> pint_parse_units P (ureg s) n = Inl e
        \<and> e \<noteq> UndefinedUnitError \<longrightarrow>
      get_quantity P (Suc depth) s n = (Inl e, s)"
    by (cases e) simp_all
  have three: "cellml_definitions s n \<noteq> None \<and> n \<notin> cellml_defined s
        \<and> pint_getattr P (ureg s) n = Inl UndefinedUnitError
        \<and> make_cellml_unit P depth s n = (Inl e', s') \<longrightarrow>
      get_quantity P (Suc depth) s n = (Inl e', s')"
    by (auto simp del: make_cellml_unit.simps)
  from one two three show ?thesis by blast
qed

theorem get_quantity_failure_witness:
  "get_quantity mini_pint (Suc 0) bare_store ''zzz_not_a_unit'' =
     (Inl (ValueError (''Cannot find the unit with name '' @ [CHR 0x22] @ ''zzz_not_a_unit''
                        @ [CHR 0x22])), bare_store)
   \<and> get_quantity number_pint (Suc 0) bare_store ''2'' = (Inl AttributeError, bare_store)
   \<and> make_cellml_unit mini_pint (Suc (Suc 0)) unbuildable_store ''u7'' =
       (Inl (ValueError (''Cannot find the unit with name '' @ [CHR 0x22] @ ''zzz_not_a_unit''
                          @ [CHR 0x22])), unbuildable_store)
   \<and> get_quantity mini_pint (Suc (Suc (Suc 0))) unbuildable_store ''u7'' =
       (Inl (ValueError (''Cannot find the unit with name '' @ [CHR 0x22] @ ''zzz_not_a_unit''
                          @ [CHR 0x22])), unbuildable_store)"
proof -
  have a: "cellml_definitions bare_store ''zzz_not_a_unit'' = None
           \<and> pint_parse_units mini_pint (ureg bare_store) ''zzz_not_a_unit'' = Inl UndefinedUnitError"
    by (simp add: mini_pint_def bare_store_def mini_lookup_def)
  have b: "cellml_definitions bare_store ''2'' = None
           \<and> pint_parse_units number_pint (ureg bare_store) ''2'' = Inl AttributeError
           \<and> AttributeError \<noteq> UndefinedUnitError"
    by (simp add: number_pint_def bare_store_def)
  have mk: "make_cellml_unit mini_pint (Suc (Suc 0)) unbuildable_store ''u7'' =
       (Inl (ValueError (''Cannot find the unit with name '' @ [CHR 0x22] @ ''zzz_not_a_unit''
                          @ [CHR 0x22])), unbuildable_store)"
    by (simp add: unbuildable_store_def katal_registry_def mini_pint_def mini_lookup_def
        cannot_find_def dquote_def)
  have c: "cellml_definitions unbuildable_store ''u7'' \<noteq> None
           \<and> ''u7'' \<notin> cellml_defined unbuildable_store
           \<and> pint_getattr mini_pint (ureg unbuildable_store) ''u7'' = Inl UndefinedUnitError"
    by (simp add: unbuildable_store_def katal_registry_def mini_pint_def mini_lookup_def)
  from get_quantity_failure [of bare_store "''zzz_not_a_unit''" mini_pint 0] a
  have r1: "get_quantity mini_pint (Suc 0) bare_store ''zzz_not_a_unit'' =
     (Inl (ValueError (''Cannot find the unit with name '' @ [CHR 0x22] @ ''zzz_not_a_unit''
                        @ [CHR 0x22])), bare_store)"
    by blast
  from get_quantity_failure [of bare_store "''2''" number_pint 0 AttributeError] b
  have r2: "get_quantity number_pint (Suc 0) bare_store ''2'' = (Inl AttributeError, bare_store)"
    by blast
  from get_quantity_failure [where s = unbuildable_store and n = "''u7''" and P = mini_pint
      and depth = "Suc (Suc 0)" and s' = unbuildable_store
      and e' = "ValueError (''Cannot find the unit with name '' @ [CHR 0x22] @ ''zzz_not_a_unit''
                          @ [CHR 0x22])"] c mk
  have r3: "get_quantity mini_pint (Suc (Suc (Suc 0))) unbuildable_store ''u7'' =
       (Inl (ValueError (''Cannot find the unit with name '' @ [CHR 0x22] @ ''zzz_not_a_unit''
                          @ [CHR 0x22])), unbuildable_store)"
    by blast
  from r1 r2 mk r3 show ?thesis by blast
qed

text \<open>
  C10. When a name has a custom definition in the model and the registry already
  resolves it, \<open>get_quantity\<close> returns the registry's unit and leaves the store as it
  was: the registry receives no definition and the name is not marked as defined.
\<close>

theorem get_quantity_registry_first:
  assumes "cellml_definitions s unit_name = Some elems"
    and "pint_getattr P (ureg s) unit_name = Inr u0"
    and "pint_parse_units P (ureg s) unit_name = Inr u"
  shows "get_quantity P (Suc depth) s unit_name = (Inr u, s)"
  using assms by simp

theorem get_quantity_registry_first_witness:
  "cellml_definitions colliding_store ''volt'' = Some [[(''units'', ''second'')]]
   \<and> get_quantity mini_pint (Suc 0) colliding_store ''volt'' = (Inr ''volt'', colliding_store)
   \<and> definitions (ureg colliding_store) = [''katal = mol / second = kat'']
   \<and> cellml_defined colliding_store = {}"
proof -
  have a: "cellml_definitions colliding_store ''volt'' = Some [[(''units'', ''second'')]]"
    by (simp add: colliding_store_def)
  have b: "pint_getattr mini_pint (ureg colliding_store) ''volt'' = Inr ''volt''"
    by (simp add: colliding_store_def katal_registry_def mini_pint_def mini_lookup_def)
  have c: "pint_parse_units mini_pint (ureg colliding_store) ''volt'' = Inr ''volt''"
    by (simp add: colliding_store_def katal_registry_def mini_pint_def mini_lookup_def)
  have d: "definitions (ureg colliding_store) = [''katal = mol / second = kat'']
           \<and> cellml_defined colliding_store = {}"
    by (simp add: colliding_store_def katal_registry_def)
  from get_quantity_registry_first [OF a b c, of 0] a d show ?thesis by simp
qed

lemma get_quantity_Suc_cases:
  assumes "get_quantity P (Suc d) s n = (Inr u, s')"
  shows "pint_parse_units P (ureg s') n = Inr u \<and>
         (s' = s \<or> n \<in> cellml_defined s')"
  using assms
  by (auto split: if_splits sum.splits error.splits prod.splits option.splits)

text \<open>
  C6. After a call of \<open>get_quantity\<close> has returned a unit, a second call for the same
  name returns the same unit and changes nothing: the store, and with it the registry
  and the set of defined names, is the one the first call left. A name the first call
  had to build is marked as defined in that store.
\<close>

theorem get_quantity_idempotent:
  assumes "get_quantity P depth s unit_name = (Inr u, s')"
  shows "get_quantity P (Suc depth') s' unit_name = (Inr u, s')
         \<and> (cellml_definitions s unit_name \<noteq> None \<and> unit_name \<notin> cellml_defined s
              \<and> isl (pint_getattr P (ureg s) unit_name)
            \<longrightarrow> unit_name \<in> cellml_defined s')"
proof (cases depth)
  case 0
  with assms show ?thesis by simp
next
  case (Suc d)
  with assms have first: "get_quantity P (Suc d) s unit_name = (Inr u, s')" by simp
  from get_quantity_Suc_cases [OF first]
  have parse: "pint_parse_units P (ureg s') unit_name = Inr u"
    and how: "s' = s \<or> unit_name \<in> cellml_defined s'" by simp_all
  have built: "unit_name \<in> cellml_defined s'"
    if "cellml_definitions s unit_name \<noteq> None \<and> unit_name \<notin> cellml_defined s
          \<and> isl (pint_getattr P (ureg s) unit_name)"
    using that first
    by (auto split: sum.splits error.splits prod.splits option.splits)
  have again: "get_quantity P (Suc depth') s' unit_name = (Inr u, s')"
    using how
  proof
    assume "unit_name \<in> cellml_defined s'"
    with parse show ?thesis by simp
  next
    assume same: "s' = s"
    show ?thesis
    proof (cases "cellml_definitions s unit_name \<noteq> None \<and> unit_name \<notin> cellml_defined s")
      case False
      with parse same show ?thesis by auto
    next
      case True
      show ?thesis
      proof (cases "pint_getattr P (ureg s) unit_name")
        case (Inr u0)
        with True parse same show ?thesis by auto
      next
        case (Inl e)
        with True built same have "unit_name \<in> cellml_defined s" by simp
        with True show ?thesis by simp
      qed
    qed
  qed
  from again built show ?thesis by blast
qed

lemma scenario_run:
  "get_quantity mini_pint (Suc (Suc (Suc (Suc (Suc (Suc 0)))))) scenario_store ''unit_x'' =
     (Inr ''unit_x'', scenario_result)"
  by (simp add: scenario_store_def scenario_result_def scenario_defs_def katal_registry_def
      mini_pint_def mini_lookup_def mini_define_def unit_expr_def insert_commute Let_def)

theorem get_quantity_idempotent_witness:
  "get_quantity mini_pint (Suc (Suc (Suc (Suc (Suc (Suc 0)))))) scenario_store ''unit_x'' =
     (Inr ''unit_x'', scenario_result)
   \<and> get_quantity mini_pint (Suc 0) scenario_result ''unit_x'' = (Inr ''unit_x'', scenario_result)
   \<and> ''unit_x'' \<in> cellml_defined scenario_result"
proof -
  have pre: "cellml_definitions scenario_store ''unit_x'' \<noteq> None
             \<and> ''unit_x'' \<notin> cellml_defined scenario_store
             \<and> isl (pint_getattr mini_pint (ureg scenario_store) ''unit_x'')"
    by (simp add: scenario_store_def scenario_defs_def katal_registry_def mini_pint_def
        mini_lookup_def)
  from get_quantity_idempotent [OF scenario_run, of 0] pre scenario_run
  show ?thesis by blast
qed

section \<open>Building custom units\<close>

lemma new_base_run:
  "get_quantity mini_pint (Suc (Suc depth)) base_unit_store ''new_base'' =
     (Inl (KeyError ''units''), base_unit_store)"
  by (simp add: base_unit_store_def katal_registry_def mini_pint_def mini_lookup_def)

lemma base_unit_run:
  "get_quantity mini_pint (Suc (Suc (Suc (Suc depth)))) base_unit_store ''derived'' =
     (Inl (KeyError ''units''), base_unit_store)"
  by (simp add: base_unit_store_def katal_registry_def mini_pint_def mini_lookup_def)

text \<open>
  C3. A custom unit whose definition references other custom units is to resolve,
  whatever the order of the declarations. \<open>derived\<close> is declared as \<open>new_base\<close> per
  second and \<open>new_base\<close> as a base unit: \<open>get_quantity('derived')\<close> raises
  \<open>KeyError('units')\<close> and registers nothing, because \<open>_make_cellml_unit\<close> reads the
  \<open>units\<close> key of the element \<open>{'base_units': 'yes'}\<close> (its
  \<open>TODO: handle 'base_units'\<close>).
\<close>

theorem derived_from_base_unit_fails:
  "cellml_definitions base_unit_store ''derived'' =
       Some [[(''units'', ''new_base'')], [(''units'', ''second''), (''exponent'', ''-1'')]]
   \<and> cellml_definitions base_unit_store ''new_base'' = Some [[(''base_units'', ''yes'')]]
   \<and> get_quantity mini_pint 1000 base_unit_store ''derived'' =
       (Inl (KeyError ''units''), base_unit_store)
   \<and> get_quantity mini_pint 1000 base_unit_store ''new_base'' =
       (Inl (KeyError ''units''), base_unit_store)"
proof -
  have a: "get_quantity mini_pint 1000 base_unit_store ''derived'' =
       (Inl (KeyError ''units''), base_unit_store)"
    using base_unit_run [of 996] by simp
  have b: "get_quantity mini_pint 1000 base_unit_store ''new_base'' =
       (Inl (KeyError ''units''), base_unit_store)"
    using new_base_run [of 998] by simp
  have c: "cellml_definitions base_unit_store ''derived'' =
       Some [[(''units'', ''new_base'')], [(''units'', ''second''), (''exponent'', ''-1'')]]
   \<and> cellml_definitions base_unit_store ''new_base'' = Some [[(''base_units'', ''yes'')]]"
    by (simp add: base_unit_store_def)
  from a b c show ?thesis by blast
qed

section \<open>Stores and their registries\<close>

lemma get_quantity_on_frame:
  assumes "ureg_ref x \<noteq> ureg_ref y"
  shows "store_of (fst (snd (get_quantity_on P depth heap x n))) y = store_of heap y"
  using assms
  by (simp add: get_quantity_on_def store_of_def split: prod.splits)

lemma get_quantity_on_result:
  "fst (get_quantity_on P depth heap y m) = fst (get_quantity P depth (store_of heap y) m)"
  by (simp add: get_quantity_on_def split: prod.splits)

lemma new_UnitStore_ref:
  assumes "new_UnitStore P heap d = Inr (a, heap1)"
  shows "ureg_ref a = length heap \<and> length heap1 = Suc (length heap)
         \<and> (\<forall>i < length heap. heap1 ! i = heap ! i)"
  using assms
  by (auto simp: new_UnitStore_def nth_append split: sum.splits)

text \<open>
  C9. Two stores created one after the other refer to different registry objects, each
  allocated by its own constructor call. A \<open>get_quantity\<close> call on one of them (which
  may define units in its registry and mark names as defined) leaves the state of the
  other as it was, registry included, and so leaves the result of every
  \<open>get_quantity\<close> call on the other unchanged.
\<close>

theorem stores_own_their_registries:
  assumes "new_UnitStore P heap d1 = Inr (a, heap1)"
    and "new_UnitStore P heap1 d2 = Inr (b, heap2)"
  shows "ureg_ref a \<noteq> ureg_ref b
         \<and> ureg_ref a < length heap2 \<and> ureg_ref b < length heap2
         \<and> store_of (fst (snd (get_quantity_on P depth heap2 a n))) b = store_of heap2 b
         \<and> fst (get_quantity_on P depth' (fst (snd (get_quantity_on P depth heap2 a n))) b m) =
             fst (get_quantity_on P depth' heap2 b m)
         \<and> store_of (fst (snd (get_quantity_on P depth heap2 b n))) a = store_of heap2 a
         \<and> fst (get_quantity_on P depth' (fst (snd (get_quantity_on P depth heap2 b n))) a m) =
             fst (get_quantity_on P depth' heap2 a m)"
proof -
  from new_UnitStore_ref [OF assms(1)] new_UnitStore_ref [OF assms(2)]
  have ra: "ureg_ref a = length heap" and rb: "ureg_ref b = Suc (length heap)"
    and len: "length heap2 = Suc (Suc (length heap))"
    by simp_all
  then have ne: "ureg_ref a \<noteq> ureg_ref b" and ne': "ureg_ref b \<noteq> ureg_ref a" by simp_all
  show ?thesis
    using ra rb len get_quantity_on_frame [OF ne, of P depth heap2 n]
      get_quantity_on_frame [OF ne', of P depth heap2 n]
    by (simp add: get_quantity_on_result)
qed

lemma new_first: "new_UnitStore mini_pint [] (Some (map_of scenario_defs)) = Inr (scenario_obj 0, [katal_registry])"
  by (simp add: new_UnitStore_def unit_store_init_def add_undefined_units_def mini_pint_def
      mini_define_def Let_def scenario_obj_def katal_registry_def)

lemma new_second: "new_UnitStore mini_pint [katal_registry] (Some (map_of scenario_defs)) = Inr (scenario_obj 1, two_stores)"
  by (simp add: new_UnitStore_def unit_store_init_def add_undefined_units_def mini_pint_def
      mini_define_def Let_def scenario_obj_def katal_registry_def two_stores_def)

lemma run_first:
  "get_quantity_on mini_pint (Suc (Suc (Suc (Suc (Suc (Suc 0)))))) two_stores (scenario_obj 0) ''unit_x''
     = (Inr ''unit_x'', [ureg scenario_result, katal_registry],
        (scenario_obj 0)\<lparr>obj_defined := {''unit_x'', ''unit_y'', ''unit_z''}\<rparr>)"
proof -
  have "store_of two_stores (scenario_obj 0) = scenario_store"
    by (simp add: store_of_def two_stores_def scenario_obj_def scenario_store_def)
  then show ?thesis
    using scenario_run
    by (simp add: get_quantity_on_def two_stores_def scenario_obj_def scenario_result_def)
qed

theorem stores_own_their_registries_witness:
  "new_UnitStore mini_pint [] (Some (map_of scenario_defs)) = Inr (scenario_obj 0, [katal_registry])
   \<and> new_UnitStore mini_pint [katal_registry] (Some (map_of scenario_defs)) =
       Inr (scenario_obj 1, two_stores)
   \<and> ureg_ref (scenario_obj 0) \<noteq> ureg_ref (scenario_obj 1)
   \<and> fst (snd (get_quantity_on mini_pint (Suc (Suc (Suc (Suc (Suc (Suc 0)))))) two_stores
                 (scenario_obj 0) ''unit_x'')) = [ureg scenario_result, katal_registry]
   \<and> store_of [ureg scenario_result, katal_registry] (scenario_obj 1) =
       store_of two_stores (scenario_obj 1)
   \<and> fst (get_quantity_on mini_pint (Suc 0) [ureg scenario_result, katal_registry]
            (scenario_obj 1) ''unit_y'') =
       fst (get_quantity_on mini_pint (Suc 0) two_stores (scenario_obj 1) ''unit_y'')"
proof -
  from stores_own_their_registries [OF new_first new_second,
      of "Suc (Suc (Suc (Suc (Suc (Suc 0)))))" "''unit_x''" "Suc 0" "''unit_y''"]
  show ?thesis
    using new_first new_second by (simp add: run_first)
qed

section \<open>The component hierarchy\<close>

lemma last_parent_append:
  "last_parent (es1 @ es2) n =
     (case last_parent es2 n of None \<Rightarrow> last_parent es1 n | Some p \<Rightarrow> Some p)"
  by (simp add: last_parent_def Let_def)

lemma record_relations_empty: "record_relations [] [] comps = comps"
  by (rule ext) (simp add: record_relations_def last_parent_def split: option.splits)

lemma record_relations_compose:
  "record_relations es2 ss2 (record_relations es1 ss1 comps) =
   record_relations (es1 @ es2) (ss1 @ ss2) comps"
  by (rule ext)
     (simp add: record_relations_def last_parent_append Collect_disj_eq Un_assoc
        split: option.splits)

lemma update_component_Inr:
  "update_component comps n f = Inr comps1 \<longleftrightarrow>
     (\<exists>c. comps n = Some c \<and> comps1 = comps(n \<mapsto> f c))"
  by (auto simp: update_component_def split: option.splits)

lemma record_edge:
  "record_relations [(p, x)] [] comps n =
     (case comps n of
        None \<Rightarrow> None
      | Some c \<Rightarrow>
          Some (c\<lparr>parent := (if n = x then p else parent c),
                  encapsulated := (if n = p then insert x (encapsulated c) else encapsulated c)\<rparr>))"
  by (simp add: record_relations_def last_parent_def split: option.splits)

lemma encapsulate_step:
  assumes "update_component comps p (\<lambda>c. add_encapsulated c x) = Inr comps1"
    and "update_component comps1 x (\<lambda>c. set_parent c p) = Inr comps2"
  shows "comps2 = record_relations [(p, x)] [] comps"
proof (rule ext)
  fix n
  from assms(1) obtain cp where cp: "comps p = Some cp"
    and c1: "comps1 = comps(p \<mapsto> add_encapsulated cp x)"
    by (auto simp: update_component_Inr)
  from assms(2) obtain cx where cx: "comps1 x = Some cx"
    and c2: "comps2 = comps1(x \<mapsto> set_parent cx p)"
    by (auto simp: update_component_Inr)
  show "comps2 n = record_relations [(p, x)] [] comps n"
  proof (cases "x = p")
    case True
    with cp c1 cx c2 show ?thesis
      by (auto simp: record_edge add_encapsulated_def set_parent_def split: option.splits)
  next
    case False
    with c1 cx have "comps x = Some cx" by simp
    with False cp c1 c2 show ?thesis
      by (auto simp: record_edge add_encapsulated_def set_parent_def split: option.splits)
  qed
qed

lemma record_sibling:
  "record_relations [] [(a, b)] comps n =
     (case comps n of
        None \<Rightarrow> None
      | Some c \<Rightarrow> Some (c\<lparr>siblings := (if n = a then insert b (siblings c) else siblings c)\<rparr>))"
  by (simp add: record_relations_def last_parent_def split: option.splits)

lemma sibling_step:
  assumes "update_component comps a (\<lambda>c. add_sibling c b) = Inr comps1"
  shows "comps1 = record_relations [] [(a, b)] comps"
proof (rule ext)
  fix n
  from assms obtain ca where "comps a = Some ca" and "comps1 = comps(a \<mapsto> add_sibling ca b)"
    by (auto simp: update_component_Inr)
  then show "comps1 n = record_relations [] [(a, b)] comps n"
    by (simp add: record_sibling add_sibling_def split: option.splits)
qed

lemma register_siblings_relations:
  "register_siblings comps pairs = Inr comps' \<Longrightarrow>
   comps' = record_relations [] (filter (\<lambda>(a, b). a \<noteq> b) pairs) comps"
proof (induction comps pairs rule: register_siblings.induct)
  case (1 comps)
  then show ?case by (simp add: record_relations_empty)
next
  case (2 comps a b rest)
  show ?case
  proof (cases "a = b")
    case True
    with 2 show ?thesis by simp
  next
    case False
    with "2.prems" obtain comps1 where
      u: "update_component comps a (\<lambda>c. add_sibling c b) = Inr comps1"
      and r: "register_siblings comps1 rest = Inr comps'"
      by (auto split: sum.splits)
    from "2.IH"(1) [OF False u r]
    have "comps' = record_relations [] (filter (\<lambda>(a, b). a \<noteq> b) rest) comps1" .
    with sibling_step [OF u] False show ?thesis
      by (simp add: record_relations_compose)
  qed
qed

lemma walk_relations:
  "(handle_component_ref comps refs p = Inr comps' \<longrightarrow>
      comps' = record_relations (edges p refs) (sibling_pairs p refs) comps)"
  "(for_each_ref comps refs p = Inr comps'' \<longrightarrow>
      comps'' = record_relations (edges p refs) (sibling_pairs_below refs) comps)"
proof (induction comps refs p and comps refs p arbitrary: comps' and comps''
       rule: handle_component_ref_for_each_ref.induct)
  case (1 comps refs p)
  show ?case
  proof
    assume h: "handle_component_ref comps refs p = Inr comps'"
    then obtain comps1 where f: "for_each_ref comps refs p = Inr comps1"
      by (auto split: sum.splits)
    from 1 f have c1: "comps1 = record_relations (edges p refs) (sibling_pairs_below refs) comps"
      by blast
    show "comps' = record_relations (edges p refs) (sibling_pairs p refs) comps"
    proof (cases "truthy p \<and> length refs > 1")
      case True
      with h f have "register_siblings comps1
          (List.product (map ref_component refs) (map ref_component refs)) = Inr comps'"
        by (simp add: Let_def)
      from register_siblings_relations [OF this] c1 True show ?thesis
        by (simp add: record_relations_compose)
    next
      case False
      with h f have "comps' = comps1" by (auto simp: Let_def)
      with c1 False show ?thesis by auto
    qed
  qed
next
  case (2 comps p)
  show ?case by (simp add: record_relations_empty)
next
  case (3 comps c kids rest p)
  show ?case
  proof
    assume h: "for_each_ref comps (ComponentRef c kids # rest) p = Inr comps''"
    define first where "first = (if truthy p then
              (case update_component comps p (\<lambda>x. add_encapsulated x c) of
                 Inl e \<Rightarrow> Inl e
               | Inr comps1 \<Rightarrow> update_component comps1 c (\<lambda>x. set_parent x p))
            else Inr comps)"
    from h obtain comps2 comps3 where
      s1: "first = Inr comps2"
      and s2: "handle_component_ref comps2 kids c = Inr comps3"
      and s3: "for_each_ref comps3 rest p = Inr comps''"
      unfolding first_def by (auto split: sum.splits)
    have c2: "comps2 = record_relations (if truthy p then [(p, c)] else []) [] comps"
    proof (cases "truthy p")
      case True
      with s1 obtain comps1 where
        "update_component comps p (\<lambda>x. add_encapsulated x c) = Inr comps1"
        "update_component comps1 c (\<lambda>x. set_parent x p) = Inr comps2"
        unfolding first_def by (auto split: sum.splits)
      from encapsulate_step [OF this] True show ?thesis by simp
    next
      case False
      with s1 show ?thesis by (simp add: first_def record_relations_empty)
    qed
    from "3.IH"(1) [OF s1 [unfolded first_def]] s2
    have c3: "comps3 = record_relations (edges c kids) (sibling_pairs c kids) comps2" by blast
    from "3.IH"(2) [OF s1 [unfolded first_def] s2] s3
    have c4: "comps'' = record_relations (edges p rest) (sibling_pairs_below rest) comps3" by blast
    show "comps'' = record_relations (edges p (ComponentRef c kids # rest))
            (sibling_pairs_below (ComponentRef c kids # rest)) comps"
      unfolding c4 c3 c2 by (simp add: record_relations_compose)
  qed
qed


lemma add_relationships_relations:
  "add_relationships comps gs = Inr comps' \<Longrightarrow>
   comps' = record_relations (group_edges gs) (group_sibling_pairs gs) comps"
proof (induction gs arbitrary: comps)
  case Nil
  then show ?case
    by (simp add: group_edges_def group_sibling_pairs_def record_relations_empty)
next
  case (Cons g gs)
  from Cons.prems obtain rel where rel: "relationship_refs g = [rel]"
    by (auto split: list.splits)
  show ?case
  proof (cases "rel = Some ''encapsulation''")
    case True
    with Cons.prems rel obtain comps1 where
      h: "handle_component_ref comps (component_refs g) None = Inr comps1"
      and r: "add_relationships comps1 gs = Inr comps'"
      by (auto split: sum.splits)
    from walk_relations(1) h
    have c1: "comps1 = record_relations (edges None (component_refs g))
                (sibling_pairs None (component_refs g)) comps" by blast
    from Cons.IH [OF r] c1 True rel show ?thesis
      by (simp add: group_edges_def group_sibling_pairs_def is_encapsulation_def
          record_relations_compose)
  next
    case False
    with Cons.prems rel have r: "add_relationships comps gs = Inr comps'" by simp
    from Cons.IH [OF r] False rel show ?thesis
      by (simp add: group_edges_def group_sibling_pairs_def is_encapsulation_def)
  qed
qed

lemma other_group_ignored:
  "relationship_refs g = [rel] \<Longrightarrow> rel \<noteq> Some ''encapsulation'' \<Longrightarrow>
   add_relationships comps (g # gs) = add_relationships comps gs"
  by simp

lemma sibling_pairs_sym:
  "(a, b) \<in> set (sibling_pairs p refs) \<Longrightarrow> a \<noteq> b \<and> (b, a) \<in> set (sibling_pairs p refs)"
  "(a, b) \<in> set (sibling_pairs_below refs) \<Longrightarrow> a \<noteq> b \<and> (b, a) \<in> set (sibling_pairs_below refs)"
  by (induction p refs and refs rule: sibling_pairs_sibling_pairs_below.induct) auto

lemma children_are_siblings:
  assumes "truthy p" and "a \<in> set (map ref_component refs)" and "b \<in> set (map ref_component refs)"
    and "a \<noteq> b"
  shows "(a, b) \<in> set (sibling_pairs p refs)"
proof -
  from assms(2,3,4) have "length refs > 1"
    by (cases refs; cases "tl refs") auto
  with assms show ?thesis by auto
qed

lemma child_edge:
  "truthy p \<Longrightarrow> r \<in> set refs \<Longrightarrow> (p, ref_component r) \<in> set (edges p refs)"
  by (induction p refs rule: edges.induct) auto


lemma nested_relations:
  "ComponentRef c kids \<in> set refs \<Longrightarrow>
     set (edges c kids) \<subseteq> set (edges p refs)
   \<and> set (sibling_pairs c kids) \<subseteq> set (sibling_pairs_below refs)"
proof (induction refs)
  case Nil
  then show ?case by simp
next
  case (Cons a refs)
  then show ?case by (cases a) (auto simp del: sibling_pairs.simps)
qed

lemma circle_edges:
  "group_edges [containment_group, circle_group] =
     [(Some ''circle_parent'', Some ''circle_x''),
      (Some ''circle_x'', Some ''circle_x_source''),
      (Some ''circle_x'', Some ''circle_x_sibling''),
      (Some ''circle_parent'', Some ''circle_y''),
      (Some ''circle_y'', Some ''circle_y_implementation'')]"
  by (simp add: group_edges_def is_encapsulation_def containment_group_def circle_group_def
      truthy_def)

lemma circle_siblings:
  "group_sibling_pairs [containment_group, circle_group] =
     [(Some ''circle_x_source'', Some ''circle_x_sibling''),
      (Some ''circle_x_sibling'', Some ''circle_x_source''),
      (Some ''circle_x'', Some ''circle_y''),
      (Some ''circle_y'', Some ''circle_x'')]"
  by (simp add: group_sibling_pairs_def is_encapsulation_def containment_group_def
      circle_group_def truthy_def)

lemma circle_succeeds:
  "\<exists>c. add_relationships circle_components [containment_group, circle_group] = Inr c"
  by (simp add: containment_group_def circle_group_def circle_components_def truthy_def
      update_component_def)


lemma circle_lookups:
  "map_option encapsulated (circle_result (Some ''circle_parent'')) =
       Some {Some ''circle_x'', Some ''circle_y''}
   \<and> map_option parent (circle_result (Some ''circle_parent'')) = Some None
   \<and> map_option parent (circle_result (Some ''circle_x'')) = Some (Some ''circle_parent'')
   \<and> map_option parent (circle_result (Some ''circle_y'')) = Some (Some ''circle_parent'')
   \<and> map_option encapsulated (circle_result (Some ''circle_x'')) =
       Some {Some ''circle_x_source'', Some ''circle_x_sibling''}
   \<and> map_option siblings (circle_result (Some ''circle_x_sibling'')) =
       Some {Some ''circle_x_source''}
   \<and> map_option siblings (circle_result (Some ''circle_x_source'')) =
       Some {Some ''circle_x_sibling''}
   \<and> map_option parent (circle_result (Some ''circle_x_sibling'')) = Some (Some ''circle_x'')
   \<and> map_option siblings (circle_result (Some ''circle_x'')) = Some {Some ''circle_y''}
   \<and> map_option siblings (circle_result (Some ''circle_parent'')) = Some {}"
  unfolding circle_result_def circle_edges circle_siblings
  by (auto simp: record_relations_def last_parent_def circle_components_def new_component_def)

text \<open>
  C7. Building the hierarchy records exactly the relations of the groups whose
  relationship is \<open>encapsulation\<close>: a group of another kind changes nothing.
  A successful walk of a tree of component references leaves every component with the
  children the tree gives it added to its encapsulated set, the parent the tree gives it
  (that of the last reference to it, in depth-first order), and the siblings the tree
  gives it added to its sibling set. The pairs recorded are: parent and child for every
  reference under a named parent, at every depth; and for the children of a named parent,
  every two of them with different names, in both directions and never a name with
  itself.
\<close>

theorem hierarchy_walk:
  "(add_relationships comps gs = Inr comps' \<longrightarrow>
      comps' = record_relations (group_edges gs) (group_sibling_pairs gs) comps)
   \<and> (relationship_refs g = [rel] \<and> rel \<noteq> Some ''encapsulation'' \<longrightarrow>
        add_relationships comps (g # gs) = add_relationships comps gs
        \<and> add_relationships comps [g] = Inr comps)
   \<and> (handle_component_ref comps refs p = Inr comps1 \<longrightarrow>
        comps1 = record_relations (edges p refs) (sibling_pairs p refs) comps)
   \<and> (truthy p \<and> r \<in> set refs \<longrightarrow> (p, ref_component r) \<in> set (edges p refs))
   \<and> (ComponentRef c kids \<in> set refs \<longrightarrow>
        set (edges c kids) \<subseteq> set (edges p refs)
        \<and> set (sibling_pairs c kids) \<subseteq> set (sibling_pairs p refs))
   \<and> (truthy p \<and> r \<in> set refs \<and> r' \<in> set refs \<and> ref_component r \<noteq> ref_component r' \<longrightarrow>
        (ref_component r, ref_component r') \<in> set (sibling_pairs p refs))
   \<and> ((a, b) \<in> set (sibling_pairs p refs) \<longrightarrow>
        a \<noteq> b \<and> (b, a) \<in> set (sibling_pairs p refs))"
proof -
  have one: "add_relationships comps gs = Inr comps' \<longrightarrow>
      comps' = record_relations (group_edges gs) (group_sibling_pairs gs) comps"
    using add_relationships_relations by blast
  have two: "relationship_refs g = [rel] \<and> rel \<noteq> Some ''encapsulation'' \<longrightarrow>
        add_relationships comps (g # gs) = add_relationships comps gs
        \<and> add_relationships comps [g] = Inr comps"
    by simp
  have three: "handle_component_ref comps refs p = Inr comps1 \<longrightarrow>
        comps1 = record_relations (edges p refs) (sibling_pairs p refs) comps"
    by (rule walk_relations(1))
  have four: "truthy p \<and> r \<in> set refs \<longrightarrow> (p, ref_component r) \<in> set (edges p refs)"
    using child_edge by blast
  have five: "ComponentRef c kids \<in> set refs \<longrightarrow>
        set (edges c kids) \<subseteq> set (edges p refs)
        \<and> set (sibling_pairs c kids) \<subseteq> set (sibling_pairs p refs)"
    using nested_relations [of c kids refs p] by auto
  have six: "truthy p \<and> r \<in> set refs \<and> r' \<in> set refs \<and> ref_component r \<noteq> ref_component r' \<longrightarrow>
        (ref_component r, ref_component r') \<in> set (sibling_pairs p refs)"
    using children_are_siblings [of p "ref_component r" refs "ref_component r'"] by auto
  have seven: "(a, b) \<in> set (sibling_pairs p refs) \<longrightarrow>
        a \<noteq> b \<and> (b, a) \<in> set (sibling_pairs p refs)"
    using sibling_pairs_sym(1) by blast
  from one two three four five six seven show ?thesis by blast
qed

theorem hierarchy_walk_witness:
  "add_relationships circle_components [containment_group, circle_group] = Inr circle_result
   \<and> add_relationships circle_components [containment_group] = Inr circle_components
   \<and> map_option encapsulated (circle_result (Some ''circle_parent'')) =
       Some {Some ''circle_x'', Some ''circle_y''}
   \<and> map_option parent (circle_result (Some ''circle_parent'')) = Some None
   \<and> map_option parent (circle_result (Some ''circle_x'')) = Some (Some ''circle_parent'')
   \<and> map_option siblings (circle_result (Some ''circle_x_sibling'')) =
       Some {Some ''circle_x_source''}
   \<and> map_option siblings (circle_result (Some ''circle_x_source'')) =
       Some {Some ''circle_x_sibling''}
   \<and> map_option siblings (circle_result (Some ''circle_x'')) = Some {Some ''circle_y''}
   \<and> map_option siblings (circle_result (Some ''circle_parent'')) = Some {}"
proof -
  from circle_succeeds obtain c where
    c: "add_relationships circle_components [containment_group, circle_group] = Inr c" ..
  have rel: "relationship_refs containment_group = [Some ''containment'']
             \<and> Some ''containment'' \<noteq> Some ''encapsulation''"
    by (simp add: containment_group_def)
  from hierarchy_walk [where comps = circle_components
      and gs = "[containment_group, circle_group]" and comps' = c
      and g = containment_group and rel = "Some ''containment''"] c rel
  have "c = circle_result"
    and "add_relationships circle_components [containment_group] = Inr circle_components"
    unfolding circle_result_def by blast+
  with c circle_lookups show ?thesis by simp
qed

section \<open>The mathematics of a component\<close>

text \<open>
  C8. The equations of every \<open><math>\<close> element of a component are to be collected.
  \<open>__add_maths\<close> reads the first \<open><math>\<close> element only, so its result does not
  depend on the elements after it: for a component with two \<open><math>\<close> elements of one
  equation each it collects one equation, not two.
\<close>

theorem add_maths_reads_first_only:
  "add_maths T c (m # ms) = add_maths T c [m]
   \<and> add_maths list_transpiler component_A [[''x = 1''], [''y = 2'']] =
       Inr (component_A\<lparr>equations := [''x = 1'']\<rparr>)"
  by (simp add: add_maths_def list_transpiler_def component_A_def)

end
